theory Spec2Isabelle
  imports Complex_Main
begin

section \<open>JavaScript values\<close>

text \<open>
  A JavaScript \<^verbatim>\<open>number\<close> is modelled as an exact rational: the sums, products and
  quotients of the source are the exact ones, without the rounding of IEEE doubles, and
  every input is a finite number. The only way the modelled expressions could then
  leave the finite numbers is a division by zero. The division of the budget rules is
  \<open>js_div\<close>, whose \<open>None\<close> stands for \<^verbatim>\<open>NaN\<close> and the infinities; the other divisions
  of the source are by the constant 6 or by a denominator made non-zero on the line
  before (\<^verbatim>\<open>dm > 0\<close>, \<^verbatim>\<open>Math.max(1, ...)\<close>, \<^verbatim>\<open>... || 1\<close>), and are written with the
  division of the rationals.
\<close>

definition Math_round :: "rat \<Rightarrow> rat" where
  \<comment> \<open>\<^verbatim>\<open>Math.round\<close>: the nearest integer, a tie going up.\<close>
  "Math_round x = of_int \<lfloor>x + 1 / 2\<rfloor>"

definition or_else :: "rat \<Rightarrow> rat \<Rightarrow> rat" where
  \<comment> \<open>\<^verbatim>\<open>a || b\<close> on numbers: \<^verbatim>\<open>0\<close> is falsy.\<close>
  "or_else a b = (if a = 0 then b else a)"

definition js_div :: "rat \<Rightarrow> rat \<Rightarrow> rat option" where
  "js_div a b = (if b = 0 then None else Some (a / b))"

definition toLowerCase_char :: "char \<Rightarrow> char" where
  "toLowerCase_char c =
     (case map_of (zip ''ABCDEFGHIJKLMNOPQRSTUVWXYZ'' ''abcdefghijklmnopqrstuvwxyz'') c of
        None \<Rightarrow> c
      | Some l \<Rightarrow> l)"

definition toLowerCase :: "string \<Rightarrow> string" where
  "toLowerCase s = map toLowerCase_char s"

fun startsWith :: "string \<Rightarrow> string \<Rightarrow> bool" where
  "startsWith s [] = True"
| "startsWith [] (p # ps) = False"
| "startsWith (c # cs) (p # ps) = (c = p \<and> startsWith cs ps)"

fun str_includes :: "string \<Rightarrow> string \<Rightarrow> bool" where
  \<comment> \<open>\<^verbatim>\<open>s.includes(sub)\<close>: \<open>sub\<close> occurs in \<open>s\<close> as a contiguous piece.\<close>
  "str_includes [] sub = (sub = [])"
| "str_includes (c # cs) sub = (startsWith (c # cs) sub \<or> str_includes cs sub)"

subsection \<open>Dates\<close>

text \<open>
  A \<^verbatim>\<open>Date\<close> is held by its local calendar fields; months count from 0 (January) to
  11 (December). Two dates compare as their instants do, which is the lexicographic
  order of the fields. A transaction's date is a \<open>jsdate option\<close>: \<open>None\<close> is
  JavaScript's Invalid Date, whose \<^verbatim>\<open>getMonth()\<close> is \<^verbatim>\<open>NaN\<close> and which compares
  false with everything.
\<close>

record jsdate =
  getFullYear :: int
  getMonth :: int
  getDate :: int
  getMillis :: int

definition new_Date :: "int \<Rightarrow> int \<Rightarrow> int \<Rightarrow> jsdate" where
  \<comment> \<open>\<^verbatim>\<open>new Date(year, month, day)\<close>, local midnight, for a day that exists in the
      month (the source passes 1). A month outside 0..11 carries into the year, and a
      year argument from 0 to 99 means 1900 + year.\<close>
  "new_Date y m d =
     (let yr = (if 0 \<le> y \<and> y \<le> 99 then 1900 + y else y)
      in \<lparr>getFullYear = yr + m div 12, getMonth = m mod 12, getDate = d, getMillis = 0\<rparr>)"


definition month_short :: "int \<Rightarrow> string" where
  \<comment> \<open>\<^verbatim>\<open>toLocaleDateString('en-US', { month: 'short' })\<close> of a date in month \<open>m\<close>.\<close>
  "month_short m =
     [''Jan'', ''Feb'', ''Mar'', ''Apr'', ''May'', ''Jun'',
      ''Jul'', ''Aug'', ''Sep'', ''Oct'', ''Nov'', ''Dec''] ! nat (m mod 12)"

section \<open>BankContext.ts\<close>

datatype txn_type = credit | debit

record Transaction =
  txn_id :: string
  accountId :: string
  date :: "jsdate option"
  txn_kind :: txn_type
  merchant :: string
  category :: string
  amount :: rat

record monthly_entry =
  month :: string
  income :: rat
  expense :: rat

record category_entry =
  cat_name :: string
  cat_value :: rat
  cat_color :: string

datatype insight_type = success | warning

datatype insight_icon = money_bag | warning_sign | fork_and_knife_with_plate

text \<open>
  The text of an insight is a template string around a number printed by
  \<^verbatim>\<open>toLocaleString()\<close>; the model keeps which template it is and the number in it:
  \<^item> \<open>saved_this_month x\<close>: "Great job! You've saved (rupee sign)x this month";
  \<^item> \<open>expenses_close_to_income\<close>: "Your expenses are getting close to your income.
    Consider reviewing your budget.";
  \<^item> \<open>spent_on_dining x\<close>: "You've spent (rupee sign)x on dining this month".
\<close>

datatype insight_text =
    saved_this_month rat
  | expenses_close_to_income
  | spent_on_dining rat

record insight =
  icon :: insight_icon
  itext :: insight_text
  itype :: insight_type

record FinancialData =
  totalIncome :: rat
  totalExpenses :: rat
  totalSavings :: rat
  monthlyData :: "monthly_entry list"
  categoryData :: "category_entry list"
  insights :: "insight list"

definition sum_amounts :: "Transaction list \<Rightarrow> rat" where
  \<comment> \<open>\<^verbatim>\<open>.reduce((sum, t) => sum + t.amount, 0)\<close>\<close>
  "sum_amounts ts = fold (\<lambda>t sum. sum + amount t) ts 0"

definition in_month :: "int \<Rightarrow> int \<Rightarrow> Transaction \<Rightarrow> bool" where
  \<comment> \<open>\<^verbatim>\<open>txnDate.getMonth() === m && txnDate.getFullYear() === y\<close>, where \<^verbatim>\<open>txnDate\<close>
      is \<^verbatim>\<open>new Date(t.date)\<close>, a copy of the transaction's date.\<close>
  "in_month m y t =
     (case date t of
        None \<Rightarrow> False
      | Some txnDate \<Rightarrow> getMonth txnDate = m \<and> getFullYear txnDate = y)"

definition month_entry :: "Transaction list \<Rightarrow> int \<Rightarrow> int \<Rightarrow> int \<Rightarrow> monthly_entry" where
  \<comment> \<open>The body of the loop over the last six months, for one \<open>i\<close>.\<close>
  "month_entry transactions currentYear currentMonth i =
     (let d = new_Date currentYear (currentMonth - i) 1;
          monthTxns = filter (in_month (getMonth d) (getFullYear d)) transactions;
          income = sum_amounts (filter (\<lambda>t. txn_kind t = credit) monthTxns);
          expense = sum_amounts (filter (\<lambda>t. txn_kind t = debit) monthTxns)
      in \<lparr>month = month_short (getMonth d), income = income, expense = expense\<rparr>)"

fun monthly_loop ::
  "Transaction list \<Rightarrow> int \<Rightarrow> int \<Rightarrow> nat \<Rightarrow> monthly_entry list \<Rightarrow> monthly_entry list" where
  \<comment> \<open>\<^verbatim>\<open>for (let i = ...; i >= 0; i--) monthlyData.push(...)\<close>\<close>
  "monthly_loop transactions currentYear currentMonth 0 acc =
     acc @ [month_entry transactions currentYear currentMonth 0]"
| "monthly_loop transactions currentYear currentMonth (Suc i) acc =
     monthly_loop transactions currentYear currentMonth i
       (acc @ [month_entry transactions currentYear currentMonth (int (Suc i))])"

fun categoryMap_add :: "(string \<times> rat) list \<Rightarrow> string \<Rightarrow> rat \<Rightarrow> (string \<times> rat) list" where
  \<comment> \<open>\<^verbatim>\<open>categoryMap.set(c, (categoryMap.get(c) || 0) + a)\<close> on a \<^verbatim>\<open>Map\<close>, which keeps
      its keys in the order of their first insertion.\<close>
  "categoryMap_add [] c a = [(c, 0 + a)]"
| "categoryMap_add ((k, v) # kvs) c a =
     (if k = c then (k, or_else v 0 + a) # kvs else (k, v) # categoryMap_add kvs c a)"

definition colors :: "string list" where
  "colors = [''#4F46E5'', ''#10B981'', ''#F59E0B'', ''#EF4444'', ''#8B5CF6'', ''#06B6D4'']"

definition generate_insights :: "Transaction list \<Rightarrow> rat \<Rightarrow> rat \<Rightarrow> rat \<Rightarrow> insight list" where
  \<comment> \<open>The three pushes onto \<^verbatim>\<open>insights\<close>, each under its own \<^verbatim>\<open>if\<close>.\<close>
  "generate_insights monthlyTxns totalIncome' totalExpenses' totalSavings' =
     (let insights0 = [];
          insights1 =
            (if totalSavings' > 0
             then insights0 @ [\<lparr>icon = money_bag, itext = saved_this_month totalSavings',
                                itype = success\<rparr>]
             else insights0);
          insights2 =
            (if totalExpenses' > totalIncome' * (8 / 10)
             then insights1 @ [\<lparr>icon = warning_sign, itext = expenses_close_to_income,
                                itype = warning\<rparr>]
             else insights1);
          diningExpenses =
            sum_amounts
              (filter (\<lambda>t. str_includes (toLowerCase (category t)) ''dining'' \<and> txn_kind t = debit)
                 monthlyTxns)
      in if diningExpenses > 5000
         then insights2 @ [\<lparr>icon = fork_and_knife_with_plate,
                             itext = spent_on_dining diningExpenses, itype = warning\<rparr>]
         else insights2)"

definition calculateFinancialData :: "Transaction list \<Rightarrow> jsdate \<Rightarrow> FinancialData option" where
  \<comment> \<open>The value handed to \<^verbatim>\<open>setFinancialData\<close>; \<open>None\<close> is \<^verbatim>\<open>null\<close>. \<open>now\<close> is what
      \<^verbatim>\<open>new Date()\<close> returns.\<close>
  "calculateFinancialData transactions now =
     (if length transactions = 0 then None
      else
        let currentMonth = getMonth now;
            currentYear = getFullYear now;
            monthlyTxns = filter (in_month currentMonth currentYear) transactions;
            totalIncome' = sum_amounts (filter (\<lambda>t. txn_kind t = credit) monthlyTxns);
            totalExpenses' = sum_amounts (filter (\<lambda>t. txn_kind t = debit) monthlyTxns);
            totalSavings' = totalIncome' - totalExpenses';
            monthlyData' = monthly_loop transactions currentYear currentMonth 5 [];
            categoryMap =
              fold (\<lambda>t m. categoryMap_add m (category t) (amount t))
                (filter (\<lambda>t. txn_kind t = debit) monthlyTxns) [];
            categoryData' =
              map (\<lambda>((name, v), index).
                     \<lparr>cat_name = name, cat_value = v,
                      cat_color = colors ! (index mod length colors)\<rparr>)
                (zip categoryMap [0 ..< length categoryMap]);
            insights' = generate_insights monthlyTxns totalIncome' totalExpenses' totalSavings'
        in Some \<lparr>totalIncome = totalIncome', totalExpenses = totalExpenses',
                 totalSavings = totalSavings', monthlyData = monthlyData',
                 categoryData = categoryData', insights = insights'\<rparr>)"

section \<open>HomePage.tsx\<close>

record budget_rule =
  label :: string
  rule_value :: "rat option"
  rule_amount :: "rat \<times> rat"

definition budget_percentage :: "rat \<Rightarrow> rat \<Rightarrow> rat option" where
  \<comment> \<open>\<^verbatim>\<open>Math.min(consumed / Math.max(allocated, 1) * 100, 100)\<close>\<close>
  "budget_percentage consumed allocated =
     (case js_div consumed (max allocated 1) of
        None \<Rightarrow> None
      | Some q \<Rightarrow> Some (min (q * 100) 100))"

definition budgetRules :: "FinancialData \<Rightarrow> budget_rule list" where
  \<comment> \<open>\<open>rule_amount\<close> holds the two numbers that the \<^verbatim>\<open>amount\<close> string prints.\<close>
  "budgetRules financialData =
     [\<lparr>label = ''Needs (50%)'',
       rule_value = budget_percentage (totalExpenses financialData * (5 / 10))
                      (totalIncome financialData * (5 / 10)),
       rule_amount = (totalExpenses financialData * (5 / 10),
                      totalIncome financialData * (5 / 10))\<rparr>,
      \<lparr>label = ''Wants (30%)'',
       rule_value = budget_percentage (totalExpenses financialData * (3 / 10))
                      (totalIncome financialData * (3 / 10)),
       rule_amount = (totalExpenses financialData * (3 / 10),
                      totalIncome financialData * (3 / 10))\<rparr>,
      \<lparr>label = ''Savings (20%)'',
       rule_value = budget_percentage (totalSavings financialData)
                      (totalIncome financialData * (2 / 10)),
       rule_amount = (totalSavings financialData,
                      totalIncome financialData * (2 / 10))\<rparr>]"

definition Progress_pct :: "rat \<Rightarrow> rat" where
  \<comment> \<open>ui/progress.tsx: the width of the bar, \<^verbatim>\<open>Math.max(0, Math.min(100, value))\<close>.\<close>
  "Progress_pct v = max 0 (min 100 v)"

datatype HomePage_view =
    no_data_available
  | dashboard "budget_rule list" "insight list"

definition HomePage :: "FinancialData option \<Rightarrow> Transaction list \<Rightarrow> HomePage_view" where
  \<comment> \<open>Which of the two pages is rendered, with the budget rules and the insights the
      dashboard shows.\<close>
  "HomePage financialData transactions =
     (case financialData of
        None \<Rightarrow> no_data_available
      | Some fd \<Rightarrow>
          if length transactions = 0 then no_data_available
          else dashboard (budgetRules fd) (insights fd))"

section \<open>GoalsPage.tsx\<close>

text \<open>The fields of a goal that the computations below read.\<close>

record Goal =
  goal_id :: string
  target_amount :: rat
  current_amount :: rat
  duration_months :: "rat option"
  priority :: "string option"


definition monthly_contribution :: "rat \<Rightarrow> int option \<Rightarrow> string \<Rightarrow> rat \<Rightarrow> rat" where
  \<comment> \<open>\<^verbatim>\<open>monthly_contribution\<close> of \<^verbatim>\<open>handleAddGoal\<close> and \<^verbatim>\<open>handleUpdateGoal\<close>. The form's
      fields are strings typed into number inputs; the model takes what they parse to:
      \<open>target\<close> is \<^verbatim>\<open>parseFloat(newGoal.target_amount)\<close> (the handler returns before this
      when the field is empty), \<open>duration\<close> is \<open>None\<close> for an empty field and otherwise
      \<^verbatim>\<open>parseInt(newGoal.duration_months)\<close>.\<close>
  "monthly_contribution target duration priority' avgMonthlySavings =
     (let ta = target;
          dm = (case duration of None \<Rightarrow> 0 | Some n \<Rightarrow> n);
          targetPerMonth = (if dm > 0 then ta / of_int dm else 0);
          k = toLowerCase priority';
          weight = (if k = ''high'' then 6 / 10 else if k = ''low'' then 25 / 100 else 4 / 10);
          cap = Math_round (weight * avgMonthlySavings);
          val = min (or_else targetPerMonth 0) (or_else cap 0)
      in max 0 (Math_round val))"

definition weightOf :: "string option \<Rightarrow> rat" where
  "weightOf p =
     (let k = toLowerCase (case p of None \<Rightarrow> [] | Some s \<Rightarrow> s)
      in if k = ''high'' then 3 else if k = ''medium'' then 2 else 1)"

definition rebalance_allocation :: "Goal \<Rightarrow> rat \<Rightarrow> rat \<Rightarrow> rat \<Rightarrow> rat" where
  \<comment> \<open>The body of \<^verbatim>\<open>goals.forEach((g, i) => ...)\<close>: the value stored under \<^verbatim>\<open>g.id\<close>, from
      the goal, \<^verbatim>\<open>weights[i]\<close>, \<^verbatim>\<open>sumW\<close> and \<^verbatim>\<open>avgMonthlySavings\<close>.\<close>
  "rebalance_allocation g w sumW avgMonthlySavings =
     (let share = w / sumW;
          base = Math_round (share * avgMonthlySavings);
          remaining = max 0 (target_amount g - current_amount g);
          months = max 1 (case duration_months g of None \<Rightarrow> 6 | Some d \<Rightarrow> or_else d 6);
          targetPerMonth = Math_round (remaining / months)
      in max 0 (min base targetPerMonth))"

definition computeRebalanceAllocations :: "Goal list \<Rightarrow> rat \<Rightarrow> (string \<rightharpoonup> rat)" where
  \<comment> \<open>The object returned, as a map from goal ids.\<close>
  "computeRebalanceAllocations goals avgMonthlySavings =
     (if length goals = 0 then Map.empty
      else
        let weights = map (\<lambda>g. weightOf (priority g)) goals;
            sumW = or_else (fold (\<lambda>b a. a + b) weights 0) 1
        in fold (\<lambda>(g, i) allocations.
                   allocations(goal_id g \<mapsto>
                     rebalance_allocation g (weights ! i) sumW avgMonthlySavings))
             (zip goals [0 ..< length goals]) Map.empty)"

definition proposed_allocation :: "Goal list \<Rightarrow> rat \<Rightarrow> Goal \<Rightarrow> rat" where
  \<comment> \<open>\<^verbatim>\<open>proposedAllocations[g.id] || 0\<close>, the new contribution the rebalance dialog shows
      for goal \<open>g\<close>.\<close>
  "proposed_allocation goals avgMonthlySavings g =
     (case computeRebalanceAllocations goals avgMonthlySavings (goal_id g) of
        None \<Rightarrow> 0
      | Some a \<Rightarrow> or_else a 0)"

section \<open>Quantities of the specification\<close>

definition credited_in :: "Transaction list \<Rightarrow> int \<Rightarrow> int \<Rightarrow> rat" where
  \<comment> \<open>The sum of the amounts of the credit transactions dated in month \<open>m\<close> of year \<open>y\<close>.\<close>
  "credited_in ts y m =
     (\<Sum>t \<leftarrow> filter (\<lambda>t. in_month m y t \<and> txn_kind t = credit) ts. amount t)"

definition debited_in :: "Transaction list \<Rightarrow> int \<Rightarrow> int \<Rightarrow> rat" where
  \<comment> \<open>The sum of the amounts of the debit transactions dated in month \<open>m\<close> of year \<open>y\<close>.\<close>
  "debited_in ts y m =
     (\<Sum>t \<leftarrow> filter (\<lambda>t. in_month m y t \<and> txn_kind t = debit) ts. amount t)"








definition targetPerMonth :: "rat \<Rightarrow> int option \<Rightarrow> rat" where
  \<comment> \<open>\<open>targetAmount / durationMonths\<close> when there is a duration above 0, else 0.\<close>
  "targetPerMonth targetAmount durationMonths =
     (case durationMonths of
        None \<Rightarrow> 0
      | Some n \<Rightarrow> if n > 0 then targetAmount / of_int n else 0)"








section \<open>Example inputs\<close>

definition nov_2025 :: jsdate where
  "nov_2025 = \<lparr>getFullYear = 2025, getMonth = 10, getDate = 3, getMillis = 0\<rparr>"


definition scenario_A :: "Transaction list" where
  "scenario_A =
     [\<lparr>txn_id = ''t1'', accountId = ''a'',
       date = Some \<lparr>getFullYear = 2025, getMonth = 10, getDate = 1, getMillis = 0\<rparr>,
       txn_kind = credit, merchant = ''Employer'', category = ''salary'', amount = 45000\<rparr>,
      \<lparr>txn_id = ''t2'', accountId = ''a'',
       date = Some \<lparr>getFullYear = 2025, getMonth = 10, getDate = 3, getMillis = 0\<rparr>,
       txn_kind = debit, merchant = ''Grocer'', category = ''groceries'', amount = 8200\<rparr>]"


definition overspent :: "Transaction list" where
  "overspent =
     [\<lparr>txn_id = ''t1'', accountId = ''a'',
       date = Some \<lparr>getFullYear = 2025, getMonth = 10, getDate = 2, getMillis = 0\<rparr>,
       txn_kind = debit, merchant = ''Landlord'', category = ''rent'', amount = 100\<rparr>]"



definition three_high_goals :: "Goal list" where
  "three_high_goals =
     [\<lparr>goal_id = ''g1'', target_amount = 100000, current_amount = 0,
       duration_months = Some 6, priority = Some ''high''\<rparr>,
      \<lparr>goal_id = ''g2'', target_amount = 100000, current_amount = 0,
       duration_months = Some 6, priority = Some ''high''\<rparr>,
      \<lparr>goal_id = ''g3'', target_amount = 100000, current_amount = 0,
       duration_months = Some 6, priority = Some ''high''\<rparr>]"

definition scenario_A_aggregate :: FinancialData where
  "scenario_A_aggregate = the (calculateFinancialData scenario_A nov_2025)"

section \<open>Theorems\<close>

text \<open>
  C5. For an empty transaction list the aggregation yields \<^verbatim>\<open>null\<close>, so there is no
  aggregate object and no insight list at all, and the home page shows "No Data
  Available". \<^verbatim>\<open>null\<close> is the result for the empty list only, and the page shows the
  dashboard for every other list, so "no data" is told from an aggregate whose values
  are zero.
\<close>

theorem empty_transactions_give_null:
  "calculateFinancialData [] now = None \<and>
   (calculateFinancialData transactions now = None) = (transactions = []) \<and>
   HomePage (calculateFinancialData [] now) [] = no_data_available \<and>
   (HomePage (calculateFinancialData transactions now) transactions = no_data_available) =
     (transactions = [])"
  by (simp add: calculateFinancialData_def HomePage_def Let_def)

subsection \<open>The monthly aggregate\<close>

lemma fold_amounts: "fold (\<lambda>t sum. sum + amount t) ts a = a + sum_list (map amount ts)"
  by (induction ts arbitrary: a) (simp_all add: add.assoc)

lemma sum_amounts_sum_list: "sum_amounts ts = sum_list (map amount ts)"
  by (simp add: sum_amounts_def fold_amounts)

lemma filter_kind_in_month:
  "filter (\<lambda>t. txn_kind t = k) (filter (in_month m y) ts) =
   filter (\<lambda>t. in_month m y t \<and> txn_kind t = k) ts"
  by (induction ts) auto

text \<open>
  C1. Whenever there are transactions, the aggregate exists; its \<open>totalIncome\<close> is the sum
  of the amounts of the credit transactions dated in the current calendar month, its
  \<open>totalExpenses\<close> the sum of the amounts of the debit transactions of that month, and its
  \<open>totalSavings\<close> is exactly their difference, whatever its sign.
\<close>

theorem monthly_totals_conserved:
  assumes "transactions \<noteq> []"
  shows "\<exists>fd. calculateFinancialData transactions now = Some fd \<and>
    totalIncome fd = credited_in transactions (getFullYear now) (getMonth now) \<and>
    totalExpenses fd = debited_in transactions (getFullYear now) (getMonth now) \<and>
    totalSavings fd = totalIncome fd - totalExpenses fd"
  using assms
  by (simp add: calculateFinancialData_def Let_def sum_amounts_sum_list filter_kind_in_month
      credited_in_def debited_in_def)

theorem monthly_totals_conserved_witness:
  "scenario_A \<noteq> [] \<and>
   (\<exists>fd. calculateFinancialData scenario_A nov_2025 = Some fd \<and>
      totalIncome fd = 45000 \<and> totalExpenses fd = 8200 \<and> totalSavings fd = 36800)"
  using monthly_totals_conserved [of scenario_A nov_2025]
  by (auto simp add: scenario_A_def nov_2025_def in_month_def credited_in_def debited_in_def)

subsection \<open>The trailing months\<close>








subsection \<open>Insights\<close>





subsection \<open>Rounding\<close>





lemma Math_round_nonpos: "x \<le> 0 \<Longrightarrow> Math_round x \<le> 0"
proof -
  assume "x \<le> 0"
  then have "\<lfloor>x + 1 / 2\<rfloor> \<le> 0" by linarith
  then show ?thesis by (simp add: Math_round_def)
qed

lemma or_else_0: "or_else x 0 = x"
  by (simp add: or_else_def)

subsection \<open>The monthly contribution of a new goal\<close>






text \<open>
  C8. With no duration, or a duration of zero, the monthly contribution is 0, whatever
  the priority, the target amount and the available monthly savings.
\<close>

theorem no_duration_no_contribution:
  "monthly_contribution targetAmount None priority' availableMonthlySavings = 0 \<and>
   monthly_contribution targetAmount (Some 0) priority' availableMonthlySavings = 0"
proof -
  have z: "max 0 (Math_round (min 0 c)) = 0" for c :: rat
  proof -
    have "Math_round (min 0 c) \<le> 0" by (rule Math_round_nonpos) simp
    then show ?thesis by simp
  qed
  show ?thesis
    by (simp add: monthly_contribution_def Let_def or_else_0 z)
qed

subsection \<open>Rebalancing\<close>













text \<open>
  C7. The rebalance allocations need not stay within the savings: there are goals and an
  amount of available monthly savings \<open>\<ge> 0\<close> for which the allocations proposed for the
  goals add up to strictly more than that amount. Three goals of priority high with
  savings of 3500 get 1167 each, 3501 in all.
\<close>

theorem rebalance_can_exceed_savings:
  "\<exists>goals availableMonthlySavings.
     0 \<le> availableMonthlySavings \<and> distinct (map goal_id goals) \<and>
     availableMonthlySavings <
       (\<Sum>g \<leftarrow> goals. proposed_allocation goals availableMonthlySavings g)"
proof -
  have "(\<Sum>g \<leftarrow> three_high_goals. proposed_allocation three_high_goals 3500 g) = 3501"
    by code_simp
  moreover have "distinct (map goal_id three_high_goals)"
    by code_simp
  ultimately have "(0::rat) \<le> 3500 \<and> distinct (map goal_id three_high_goals) \<and>
      3500 < (\<Sum>g \<leftarrow> three_high_goals. proposed_allocation three_high_goals 3500 g)"
    by simp
  then show ?thesis by blast
qed

subsection \<open>The available monthly savings\<close>





subsection \<open>The budget rules\<close>

lemma budget_percentage_defined:
  "budget_percentage consumed allocated = Some (min (consumed / max allocated 1 * 100) 100)"
  by (simp add: budget_percentage_def js_div_def max_def)

text \<open>
  C6, as the specification states it, fails: with a single debit of 100 in the month,
  the income is 0 and the savings are -100, and the percentage of the savings bucket is
  -10000, below 0.
\<close>

theorem budget_percentage_below_zero:
  "map_option (map rule_value \<circ> budgetRules) (calculateFinancialData overspent nov_2025) =
     Some [Some 100, Some 100, Some (- 10000)]"
  by code_simp

text \<open>
  C6, amended. For every aggregate, each of the three percentages is
  \<open>min(consumed / max(allocatedTarget, 1) * 100, 100)\<close>; the denominator is never zero, so
  it is a number (never \<^verbatim>\<open>NaN\<close> or an infinity), and it is at most 100. It is at least 0
  when the consumed amount of the bucket is (the expense share for needs and wants,
  \<open>totalSavings\<close> for savings), and what the progress bar draws from it,
  \<open>max(0, min(100, value))\<close>, always lies in [0, 100].
\<close>

theorem budget_percentages:
  "map rule_value (budgetRules fd) =
     [Some (min (totalExpenses fd * (5 / 10) / max (totalIncome fd * (5 / 10)) 1 * 100) 100),
      Some (min (totalExpenses fd * (3 / 10) / max (totalIncome fd * (3 / 10)) 1 * 100) 100),
      Some (min (totalSavings fd / max (totalIncome fd * (2 / 10)) 1 * 100) 100)] \<and>
   (\<forall>r \<in> set (budgetRules fd). \<exists>p. rule_value r = Some p \<and> p \<le> 100 \<and>
      0 \<le> Progress_pct p \<and> Progress_pct p \<le> 100 \<and>
      (0 \<le> fst (rule_amount r) \<longrightarrow> 0 \<le> p \<and> Progress_pct p = p))"
proof -
  have nonneg: "0 \<le> min (c / max a 1 * 100) 100" if "0 \<le> c" for c a :: rat
  proof -
    have "0 < max a 1" by simp
    with that have "0 \<le> c / max a 1" by (intro divide_nonneg_pos)
    then have "0 \<le> c / max a 1 * 100" by (intro mult_nonneg_nonneg) simp_all
    then show ?thesis by (simp only: min_def) simp
  qed
  show ?thesis
    by (auto simp add: budgetRules_def budget_percentage_defined Progress_pct_def nonneg)
qed

theorem budget_percentages_witness:
  "map rule_value (budgetRules scenario_A_aggregate) =
     [Some (164 / 9), Some (164 / 9), Some 100] \<and>
   map (fst \<circ> rule_amount) (budgetRules scenario_A_aggregate) = [4100, 2460, 36800] \<and>
   map (map_option Progress_pct \<circ> rule_value) (budgetRules scenario_A_aggregate) =
     [Some (164 / 9), Some (164 / 9), Some 100]"
proof -
  have v: "map rule_value (budgetRules scenario_A_aggregate) =
      [Some (164 / 9), Some (164 / 9), Some 100]"
    by code_simp
  have a: "map (fst \<circ> rule_amount) (budgetRules scenario_A_aggregate) = [4100, 2460, 36800]"
    by code_simp
  have p: "map (map_option Progress_pct \<circ> rule_value) (budgetRules scenario_A_aggregate) =
     [Some (164 / 9), Some (164 / 9), Some 100]"
    by code_simp
  show ?thesis
    using budget_percentages [of scenario_A_aggregate] v a p by simp
qed

end
